theory Spec2Isabelle
  imports Complex_Main
begin

section \<open>The keyboard preview of the Acer Predator RGB front-end\<close>

text \<open>
  A shallow embedding of \<^verbatim>\<open>src/gui/components/keyboard_preview.py\<close>: the classes
  \<^verbatim>\<open>KeyWidget\<close> and \<^verbatim>\<open>KeyboardPreviewWidget\<close>, with the widget's fields as a record
  that every method takes and returns; and of \<^verbatim>\<open>RGBWebHandler.handle_set_mode\<close> of
  \<^verbatim>\<open>web_gui.py\<close>, over a controller whose two methods are modelled from the spec.

  Conventions of the embedding.
  \<^item> Python integers are \<open>int\<close>. Python floats are modelled as real numbers, so
    \<^verbatim>\<open>math.sin\<close> is the real sine and float rounding is not represented; \<^verbatim>\<open>int(x)\<close> on a
    float truncates towards zero (\<open>py_int\<close>).
  \<^item> A \<^verbatim>\<open>QColor\<close> is the triple of integers its constructor receives, read back by
    \<^verbatim>\<open>red()\<close>, \<^verbatim>\<open>green()\<close>, \<^verbatim>\<open>blue()\<close>.
  \<^item> \<^verbatim>\<open>QColor.setHsv\<close> is PyQt6 library code. The conversion of a hue at saturation 255 and
    value 255 is a parameter \<open>hsv\<close> of the functions that use it.
  \<^item> A \<^verbatim>\<open>QTimer\<close> is two fields: whether it is active and its interval in milliseconds.
    \<^verbatim>\<open>start(ms)\<close> sets both, \<^verbatim>\<open>stop()\<close> clears the first, \<^verbatim>\<open>setInterval(ms)\<close> sets the second.
  \<^item> An \<^verbatim>\<open>IndexError\<close> raised by a list access is the result \<open>None\<close>.
  \<^item> Geometry, style sheets other than the background colour, and signal wiring are left out.
\<close>

subsection \<open>Python primitives\<close>

definition py_int :: "real \<Rightarrow> int" where
  "py_int x = (if 0 \<le> x then \<lfloor>x\<rfloor> else \<lceil>x\<rceil>)"

definition py_fmod :: "real \<Rightarrow> real \<Rightarrow> real" where
  "py_fmod x m = x - m * of_int \<lfloor>x / m\<rfloor>"

definition py_index :: "'a list \<Rightarrow> int \<Rightarrow> 'a option" where
  "py_index xs i =
     (if 0 \<le> i \<and> i < int (length xs) then Some (xs ! nat i)
      else if i < 0 \<and> - int (length xs) \<le> i then Some (xs ! nat (int (length xs) + i))
      else None)"

definition py_store :: "'a list \<Rightarrow> int \<Rightarrow> 'a \<Rightarrow> 'a list option" where
  "py_store xs i v =
     (if 0 \<le> i \<and> i < int (length xs) then Some (xs[nat i := v])
      else if i < 0 \<and> - int (length xs) \<le> i then Some (xs[nat (int (length xs) + i) := v])
      else None)"

fun for_each :: "('a \<Rightarrow> 'b option) \<Rightarrow> 'a list \<Rightarrow> 'b list option" where
  "for_each f [] = Some []"
| "for_each f (x # xs) =
     (case f x of
        None \<Rightarrow> None
      | Some y \<Rightarrow> (case for_each f xs of None \<Rightarrow> None | Some ys \<Rightarrow> Some (y # ys)))"

subsection \<open>Colours and keys\<close>

record color =
  red :: int
  green :: int
  blue :: int

definition QColor :: "int \<Rightarrow> int \<Rightarrow> int \<Rightarrow> color" where
  "QColor r g b = \<lparr>red = r, green = g, blue = b\<rparr>"

definition valid_color :: "color \<Rightarrow> bool" where
  "valid_color c \<longleftrightarrow>
     0 \<le> red c \<and> red c \<le> 255 \<and> 0 \<le> green c \<and> green c \<le> 255 \<and> 0 \<le> blue c \<and> blue c \<le> 255"

text \<open>
  \<^verbatim>\<open>KeyWidget\<close>: the zone, the colour and brightness last given to \<^verbatim>\<open>set_color\<close>, and the
  background colour that \<^verbatim>\<open>set_color\<close> writes into the style sheet (\<open>adjusted_color\<close>).
\<close>

record key =
  zone_id :: int
  current_color :: color
  brightness :: int
  adjusted_color :: color

definition KeyWidget :: key where
  "KeyWidget =
     \<lparr>zone_id = 1, current_color = QColor 50 255 50, brightness = 100,
      adjusted_color = QColor 50 255 50\<rparr>"

definition set_color :: "color \<Rightarrow> int \<Rightarrow> key \<Rightarrow> key" where
  "set_color c b k =
     (let adjusted =
            (if b < 100
             then (let factor = real_of_int b / 100
                   in QColor (py_int (real_of_int (red c) * factor))
                             (py_int (real_of_int (green c) * factor))
                             (py_int (real_of_int (blue c) * factor)))
             else c);
          adjusted = (if b = 0 then QColor 30 30 30 else adjusted)
      in k\<lparr>current_color := c, brightness := b, adjusted_color := adjusted\<rparr>)"

definition set_zone :: "int \<Rightarrow> key \<Rightarrow> key" where
  "set_zone z k = k\<lparr>zone_id := z\<rparr>"

subsection \<open>The preview widget\<close>

record preview =
  animation_frame :: int
  current_mode :: int
  current_colors :: "(int \<times> int \<times> int) list"
  current_brightness :: int
  current_speed :: int
  current_direction :: int
  keys :: "key list"
  zone_colors :: "color list"
  timer_active :: bool
  timer_interval :: int

definition animated_mode :: "int \<Rightarrow> bool" where
  "animated_mode m \<longleftrightarrow> m \<in> {1, 2, 3, 4, 5}"

definition start_animation :: "preview \<Rightarrow> preview" where
  "start_animation st =
     (if animated_mode (current_mode st)
      then st\<lparr>timer_active := True, timer_interval := 100\<rparr>
      else st\<lparr>timer_active := False\<rparr>)"

text \<open>One key of the layout: a fresh \<^verbatim>\<open>KeyWidget\<close>, its zone, then the zone's colour.\<close>

definition layout_key :: "preview \<Rightarrow> int \<Rightarrow> key option" where
  "layout_key st zone =
     (case py_index (zone_colors st) zone of
        None \<Rightarrow> None
      | Some c \<Rightarrow> Some (set_color c (current_brightness st) (set_zone (zone + 1) KeyWidget)))"

definition create_keyboard_layout :: "preview \<Rightarrow> preview option" where
  "create_keyboard_layout st =
     (case for_each (layout_key st) (concat (map (replicate 8) [0, 1, 2, 3])) of
        None \<Rightarrow> None
      | Some small \<Rightarrow>
          (case for_each (layout_key st) [0, 1, 2, 3] of
             None \<Rightarrow> None
           | Some large \<Rightarrow> Some (st\<lparr>keys := small @ large\<rparr>)))"

definition init :: "preview option" where
  "init =
     (case create_keyboard_layout
             \<lparr>animation_frame = 0, current_mode = 3,
              current_colors = replicate 4 (50, 255, 50),
              current_brightness = 100, current_speed = 5, current_direction = 1,
              keys = [], zone_colors = replicate 4 (QColor 50 255 50),
              timer_active = False, timer_interval = 0\<rparr> of
        None \<Rightarrow> None
      | Some st \<Rightarrow> Some (start_animation st))"

definition update_key :: "preview \<Rightarrow> int \<Rightarrow> key \<Rightarrow> key option" where
  "update_key st b k =
     (let zone_idx = zone_id k - 1
      in if 0 \<le> zone_idx \<and> zone_idx < 4
         then (case py_index (zone_colors st) zone_idx of
                 None \<Rightarrow> None
               | Some c \<Rightarrow> Some (set_color c b k))
         else Some k)"

definition update_keys :: "preview \<Rightarrow> preview option" where
  "update_keys st =
     (case for_each (update_key st (current_brightness st)) (keys st) of
        None \<Rightarrow> None
      | Some ks \<Rightarrow> Some (st\<lparr>keys := ks\<rparr>))"

fun store_all :: "color list \<Rightarrow> int list \<Rightarrow> color \<Rightarrow> color list option" where
  "store_all zs [] c = Some zs"
| "store_all zs (i # is) c =
     (case py_store zs i c of None \<Rightarrow> None | Some zs' \<Rightarrow> store_all zs' is c)"

definition update_color :: "color \<Rightarrow> preview \<Rightarrow> preview option" where
  "update_color c st =
     (if current_mode st \<in> {0, 1, 4, 5}
      then (case store_all (zone_colors st) [0, 1, 2, 3] c of
              None \<Rightarrow> None
            | Some zs \<Rightarrow> update_keys (st\<lparr>zone_colors := zs\<rparr>))
      else Some st)"

definition update_zone_color :: "int \<Rightarrow> color \<Rightarrow> preview \<Rightarrow> preview option" where
  "update_zone_color zone c st =
     (if 1 \<le> zone \<and> zone \<le> 4
      then (case py_store (zone_colors st) (zone - 1) c of
              None \<Rightarrow> None
            | Some zs \<Rightarrow> update_keys (st\<lparr>zone_colors := zs\<rparr>))
      else Some st)"

definition update_brightness :: "int \<Rightarrow> preview \<Rightarrow> preview option" where
  "update_brightness b st = update_keys (st\<lparr>current_brightness := b\<rparr>)"

definition update_animation_mode :: "preview \<Rightarrow> preview option" where
  "update_animation_mode st =
     (if animated_mode (current_mode st)
      then Some (start_animation st)
      else update_keys (st\<lparr>timer_active := False\<rparr>))"

definition update_mode :: "int \<Rightarrow> preview \<Rightarrow> preview option" where
  "update_mode m st =
     (case update_animation_mode (st\<lparr>current_mode := m\<rparr>) of
        None \<Rightarrow> None
      | Some st' \<Rightarrow> update_keys st')"

definition update_animation_speed :: "preview \<Rightarrow> preview" where
  "update_animation_speed st =
     (if timer_active st
      then st\<lparr>timer_interval := max 50 (250 - current_speed st * 20)\<rparr>
      else st)"

definition update_speed :: "int \<Rightarrow> preview \<Rightarrow> preview" where
  "update_speed s st = update_animation_speed (st\<lparr>current_speed := s\<rparr>)"

definition update_direction :: "int \<Rightarrow> preview \<Rightarrow> preview" where
  "update_direction d st = st\<lparr>current_direction := d\<rparr>"

subsection \<open>The animations\<close>

text \<open>
  \<open>update_key\<close> is also the body of the loop of \<^verbatim>\<open>animate_breathing\<close>, which differs from
  \<^verbatim>\<open>update_keys\<close> only in the brightness it passes.
\<close>

definition animate_breathing :: "preview \<Rightarrow> preview option" where
  "animate_breathing st =
     (let brightness_factor = (sin (real_of_int (animation_frame st) * 0.1) + 1) / 2;
          effective_brightness = py_int (real_of_int (current_brightness st) * brightness_factor)
      in case for_each (update_key st effective_brightness) (keys st) of
           None \<Rightarrow> None
         | Some ks \<Rightarrow> Some (st\<lparr>keys := ks\<rparr>))"

definition animate_neon :: "(int \<Rightarrow> color) \<Rightarrow> preview \<Rightarrow> preview" where
  "animate_neon hsv st =
     st\<lparr>keys :=
          map (\<lambda>(i, k).
                 let hue = (animation_frame st * 2 + int i * 10) mod 360
                 in set_color (hsv hue) (current_brightness st) k)
              (enumerate 0 (keys st))\<rparr>"

definition wave_pos :: "int \<Rightarrow> int \<Rightarrow> int \<Rightarrow> int" where
  "wave_pos direction frame zone_idx =
     (if direction = 1 then (frame - zone_idx * 10) mod 100
      else (frame + zone_idx * 10) mod 100)"

definition wave_key :: "(int \<Rightarrow> color) \<Rightarrow> preview \<Rightarrow> key \<Rightarrow> key" where
  "wave_key hsv st k =
     (let zone_idx = zone_id k - 1;
          wp = wave_pos (current_direction st) (animation_frame st) zone_idx;
          brightness_factor = (sin (real_of_int wp * 0.1) + 1) / 2;
          effective_brightness = py_int (real_of_int (current_brightness st) * brightness_factor);
          hue = py_fmod (real_of_int wp * 3.6) 360
      in set_color (hsv (py_int hue)) effective_brightness k)"

definition animate_wave :: "(int \<Rightarrow> color) \<Rightarrow> preview \<Rightarrow> preview" where
  "animate_wave hsv st = st\<lparr>keys := map (wave_key hsv st) (keys st)\<rparr>"

definition shift_key :: "preview \<Rightarrow> color \<Rightarrow> color \<Rightarrow> key \<Rightarrow> key" where
  "shift_key st original base_color k =
     (let shift_amount = sin (real_of_int (animation_frame st) * 0.05) * 0.5 + 0.5;
          r = py_int (real_of_int (red original) * (1 - shift_amount)
                      + real_of_int (red base_color) * shift_amount);
          g = py_int (real_of_int (green original) * (1 - shift_amount)
                      + real_of_int (green base_color) * shift_amount);
          b = py_int (real_of_int (blue original) * (1 - shift_amount)
                      + real_of_int (blue base_color) * shift_amount)
      in set_color (QColor r g b) (current_brightness st) k)"

definition animate_shifting :: "(int \<Rightarrow> color) \<Rightarrow> preview \<Rightarrow> preview option" where
  "animate_shifting hsv st =
     (let hue = (animation_frame st * 2) mod 360;
          base_color = hsv hue
      in case py_index (zone_colors st) 0 of
           None \<Rightarrow> None
         | Some original \<Rightarrow> Some (st\<lparr>keys := map (shift_key st original base_color) (keys st)\<rparr>))"

definition zoom_factor :: "int \<Rightarrow> real" where
  "zoom_factor frame = (sin (real_of_int frame * 0.1) + 1) / 2"

definition zoom_channel :: "int \<Rightarrow> real \<Rightarrow> int" where
  "zoom_channel c zf = min 255 (py_int (real_of_int c * (0.8 + 0.2 * zf)))"

definition zoom_key :: "preview \<Rightarrow> real \<Rightarrow> key \<Rightarrow> key option" where
  "zoom_key st zf k =
     (let zone_idx = zone_id k - 1
      in case py_index (zone_colors st) zone_idx of
           None \<Rightarrow> None
         | Some base_color \<Rightarrow>
             (let effective_brightness =
                    py_int (real_of_int (current_brightness st) * (0.3 + 0.7 * zf));
                  r = zoom_channel (red base_color) zf;
                  g = zoom_channel (green base_color) zf;
                  b = zoom_channel (blue base_color) zf
              in Some (set_color (QColor r g b) effective_brightness k)))"

definition animate_zoom :: "preview \<Rightarrow> preview option" where
  "animate_zoom st =
     (case for_each (zoom_key st (zoom_factor (animation_frame st))) (keys st) of
        None \<Rightarrow> None
      | Some ks \<Rightarrow> Some (st\<lparr>keys := ks\<rparr>))"

text \<open>The timer's slot: one tick.\<close>

definition update_animation :: "(int \<Rightarrow> color) \<Rightarrow> preview \<Rightarrow> preview option" where
  "update_animation hsv st =
     (let st1 = st\<lparr>animation_frame := animation_frame st + 1\<rparr>
      in if current_mode st1 = 1 then animate_breathing st1
         else if current_mode st1 = 2 then Some (animate_neon hsv st1)
         else if current_mode st1 = 3 then Some (animate_wave hsv st1)
         else if current_mode st1 = 4 then animate_shifting hsv st1
         else if current_mode st1 = 5 then animate_zoom st1
         else Some st1)"

subsection \<open>Updating the preview from a state dictionary\<close>

text \<open>
  The dictionary handed to \<^verbatim>\<open>update_from_state\<close>, one optional entry per key that the method
  reads with \<^verbatim>\<open>state.get\<close>.
\<close>

record state_dict =
  get_mode :: "int option"
  get_brightness :: "int option"
  get_speed :: "int option"
  get_direction :: "int option"
  get_color :: "(int \<times> int \<times> int) option"
  get_zone :: "int option"

definition dict_get :: "'a option \<Rightarrow> 'a \<Rightarrow> 'a" where
  "dict_get entry dflt = (case entry of None \<Rightarrow> dflt | Some v \<Rightarrow> v)"

definition update_from_state :: "state_dict \<Rightarrow> preview \<Rightarrow> preview option" where
  "update_from_state state st =
     (let st1 = st\<lparr>current_mode := dict_get (get_mode state) 3,
                    current_brightness := dict_get (get_brightness state) 100,
                    current_speed := dict_get (get_speed state) 5,
                    current_direction := dict_get (get_direction state) 1\<rparr>;
          new_color = (case dict_get (get_color state) (50, 255, 50) of
                         (r, g, b) \<Rightarrow> QColor r g b)
      in case (if current_mode st1 = 0
               then update_zone_color (dict_get (get_zone state) 1) new_color st1
               else update_color new_color st1) of
           None \<Rightarrow> None
         | Some st2 \<Rightarrow>
             (case update_mode (current_mode st2) st2 of
                None \<Rightarrow> None
              | Some st3 \<Rightarrow> Some (update_speed (current_speed st3) st3)))"

subsection \<open>The apply command of the HTTP interface\<close>

text \<open>
  The state that the controller keeps and the state query returns: one entry for each of
  \<^verbatim>\<open>mode\<close>, \<^verbatim>\<open>brightness\<close>, \<^verbatim>\<open>speed\<close>, \<^verbatim>\<open>color\<close>, \<^verbatim>\<open>direction\<close> and \<^verbatim>\<open>zone\<close>.
\<close>

record rgb_state =
  c_mode :: int
  c_brightness :: int
  c_speed :: int
  c_color :: "int \<times> int \<times> int"
  c_direction :: int
  c_zone :: int

text \<open>
  Modelled from the spec: \<^verbatim>\<open>RGBController.set_rgb_mode\<close> of \<^verbatim>\<open>core/rgb_controller.py\<close>, which
  is not among the sources. The spec's apply command updates the fields present in the
  payload, leaves the others unchanged and returns a success flag that comes from the
  external device script. The mode is the positional argument; the keyword arguments are a
  dictionary without a mode entry; the flag is the parameter \<open>device_ok\<close>.
\<close>

definition set_rgb_mode :: "bool \<Rightarrow> int \<Rightarrow> state_dict \<Rightarrow> rgb_state \<Rightarrow> bool \<times> rgb_state" where
  "set_rgb_mode device_ok mode kwargs st =
     (device_ok,
      st\<lparr>c_mode := mode,
         c_brightness := dict_get (get_brightness kwargs) (c_brightness st),
         c_speed := dict_get (get_speed kwargs) (c_speed st),
         c_color := dict_get (get_color kwargs) (c_color st),
         c_direction := dict_get (get_direction kwargs) (c_direction st),
         c_zone := dict_get (get_zone kwargs) (c_zone st)\<rparr>)"

text \<open>
  Modelled from the spec: \<^verbatim>\<open>RGBController.get_current_state\<close>, of the same missing file. The
  state query returns the full state, every entry present.
\<close>

definition get_current_state :: "rgb_state \<Rightarrow> state_dict" where
  "get_current_state st =
     \<lparr>get_mode = Some (c_mode st), get_brightness = Some (c_brightness st),
      get_speed = Some (c_speed st), get_direction = Some (c_direction st),
      get_color = Some (c_color st), get_zone = Some (c_zone st)\<rparr>"

text \<open>
  \<^verbatim>\<open>RGBWebHandler.handle_set_mode\<close> of \<^verbatim>\<open>web_gui.py\<close>, on the decoded JSON body: the mode
  with default 3, and a keyword argument for each of the five other entries that the body
  has. The result is the success flag of the response and the controller's new state.
\<close>

definition handle_set_mode :: "bool \<Rightarrow> state_dict \<Rightarrow> rgb_state \<Rightarrow> bool \<times> rgb_state" where
  "handle_set_mode device_ok data st =
     (let mode = dict_get (get_mode data) 3;
          kwargs = \<lparr>get_mode = None,
                    get_brightness = (case get_brightness data of None \<Rightarrow> None | Some v \<Rightarrow> Some v),
                    get_speed = (case get_speed data of None \<Rightarrow> None | Some v \<Rightarrow> Some v),
                    get_direction = (case get_direction data of None \<Rightarrow> None | Some v \<Rightarrow> Some v),
                    get_color = (case get_color data of None \<Rightarrow> None | Some v \<Rightarrow> Some v),
                    get_zone = (case get_zone data of None \<Rightarrow> None | Some v \<Rightarrow> Some v)\<rparr>
      in set_rgb_mode device_ok mode kwargs st)"

subsection \<open>Predicates used in the statements\<close>

text \<open>
  A key whose stored brightness is a percentage and whose stored and shown colours are
  colours of 8-bit channels.
\<close>

definition key_in_range :: "key \<Rightarrow> bool" where
  "key_in_range k \<longleftrightarrow>
     0 \<le> brightness k \<and> brightness k \<le> 100 \<and>
     valid_color (current_color k) \<and> valid_color (adjusted_color k)"

text \<open>
  The shape every preview has: \<^verbatim>\<open>__init__\<close> creates four zone colours and
  \<^verbatim>\<open>create_keyboard_layout\<close> gives every key a zone from 1 to 4; no method changes the
  length of the list or the zone of a key.
\<close>

definition well_formed :: "preview \<Rightarrow> bool" where
  "well_formed st \<longleftrightarrow>
     length (zone_colors st) = 4 \<and>
     list_all (\<lambda>k. 1 \<le> zone_id k \<and> zone_id k \<le> 4) (keys st)"

text \<open>
  A concrete conversion to instantiate \<open>hsv\<close> in closed examples: the six-sector colour
  wheel at full saturation and value, in integer arithmetic. The theorems below hold for
  every conversion that returns 8-bit channels; none depends on this one.
\<close>

definition sample_hsv :: "int \<Rightarrow> color" where
  "sample_hsv h =
     (let sector = (h mod 360) div 60;
          ramp = ((h mod 60) * 255) div 60
      in if sector = 0 then QColor 255 ramp 0
         else if sector = 1 then QColor (255 - ramp) 255 0
         else if sector = 2 then QColor 0 255 ramp
         else if sector = 3 then QColor 0 (255 - ramp) 255
         else if sector = 4 then QColor ramp 0 255
         else QColor 255 0 (255 - ramp))"

section \<open>Auxiliary facts\<close>

text \<open>
  Bounds on the arithmetic of the animations, the results of the key loops on a well-formed
  preview, and the shape of the initial preview.
\<close>

lemma py_int_nonneg: "0 \<le> x \<Longrightarrow> 0 \<le> py_int x"
  by (simp add: py_int_def)

lemma py_int_le: "0 \<le> x \<Longrightarrow> x \<le> real_of_int n \<Longrightarrow> py_int x \<le> n"
  by (simp add: py_int_def floor_le_iff)

lemma sin_factor_bounds: "0 \<le> (sin x + 1) / 2 \<and> (sin x + 1) / 2 \<le> (1::real)"
proof -
  have "0 \<le> sin x + 1" using sin_ge_minus_one [of x] by linarith
  moreover have "sin x + 1 \<le> 2" using sin_le_one [of x] by linarith
  ultimately show ?thesis by simp
qed

lemma for_each_map:
  "(\<And>x. x \<in> set xs \<Longrightarrow> f x = Some (g x)) \<Longrightarrow> for_each f xs = Some (map g xs)"
  by (induction xs) simp_all

lemma scaled_channel:
  assumes "0 \<le> c" "c \<le> 255" "0 \<le> f" "f \<le> 1"
  shows "0 \<le> py_int (real_of_int c * f) \<and> py_int (real_of_int c * f) \<le> 255"
proof -
  have nn: "0 \<le> real_of_int c * f" using assms by simp
  have "real_of_int c * f \<le> real_of_int c * 1"
    using assms by (intro mult_left_mono) simp_all
  then have "real_of_int c * f \<le> real_of_int 255" using assms by simp
  with nn show ?thesis using py_int_nonneg py_int_le by blast
qed

lemma set_color_in_range:
  assumes "valid_color c" "0 \<le> b" "b \<le> 100"
  shows "key_in_range (set_color c b k)"
proof -
  have f: "0 \<le> real_of_int b / 100" "real_of_int b / 100 \<le> 1" using assms by simp_all
  have "valid_color (QColor (py_int (real_of_int (red c) * (real_of_int b / 100)))
                            (py_int (real_of_int (green c) * (real_of_int b / 100)))
                            (py_int (real_of_int (blue c) * (real_of_int b / 100))))"
    using assms(1) scaled_channel [OF _ _ f]
    by (simp add: valid_color_def QColor_def)
  moreover have "valid_color (QColor 30 30 30)" by (simp add: valid_color_def QColor_def)
  ultimately show ?thesis
    using assms by (simp add: key_in_range_def set_color_def Let_def)
qed

lemma set_color_zone [simp]: "zone_id (set_color c b k) = zone_id k"
  by (simp add: set_color_def Let_def)

lemma set_color_brightness [simp]: "brightness (set_color c b k) = b"
  by (simp add: set_color_def Let_def)

lemma set_color_current [simp]: "current_color (set_color c b k) = c"
  by (simp add: set_color_def Let_def)

lemma update_key_wf:
  assumes "length (zone_colors st) = 4" "1 \<le> zone_id k" "zone_id k \<le> 4"
  shows "update_key st b k = Some (set_color (zone_colors st ! nat (zone_id k - 1)) b k)"
  using assms by (simp add: update_key_def py_index_def)

lemma zoom_key_wf:
  assumes "length (zone_colors st) = 4" "1 \<le> zone_id k" "zone_id k \<le> 4"
  shows "zoom_key st zf k =
    Some (set_color (QColor (zoom_channel (red (zone_colors st ! nat (zone_id k - 1))) zf)
                            (zoom_channel (green (zone_colors st ! nat (zone_id k - 1))) zf)
                            (zoom_channel (blue (zone_colors st ! nat (zone_id k - 1))) zf))
           (py_int (real_of_int (current_brightness st) * (0.3 + 0.7 * zf))) k)"
  using assms by (simp add: zoom_key_def py_index_def Let_def)

lemma breathing_wf:
  assumes "well_formed st"
  shows "animate_breathing st =
    Some (st\<lparr>keys := map (\<lambda>k. set_color (zone_colors st ! nat (zone_id k - 1))
        (py_int (real_of_int (current_brightness st)
                 * ((sin (real_of_int (animation_frame st) * 0.1) + 1) / 2))) k) (keys st)\<rparr>)"
proof -
  have "for_each (update_key st b) (keys st) =
        Some (map (\<lambda>k. set_color (zone_colors st ! nat (zone_id k - 1)) b k) (keys st))" for b
    using assms
    by (intro for_each_map update_key_wf) (auto simp add: well_formed_def list_all_iff)
  then show ?thesis by (simp add: animate_breathing_def Let_def)
qed

lemma update_keys_wf:
  assumes "well_formed st"
  shows "update_keys st =
    Some (st\<lparr>keys := map (\<lambda>k. set_color (zone_colors st ! nat (zone_id k - 1))
        (current_brightness st) k) (keys st)\<rparr>)"
proof -
  have "for_each (update_key st b) (keys st) =
        Some (map (\<lambda>k. set_color (zone_colors st ! nat (zone_id k - 1)) b k) (keys st))" for b
    using assms
    by (intro for_each_map update_key_wf) (auto simp add: well_formed_def list_all_iff)
  then show ?thesis by (simp add: update_keys_def)
qed

lemma zoom_wf:
  assumes "well_formed st"
  shows "animate_zoom st =
    Some (st\<lparr>keys := map (\<lambda>k. set_color
        (QColor (zoom_channel (red (zone_colors st ! nat (zone_id k - 1))) (zoom_factor (animation_frame st)))
                (zoom_channel (green (zone_colors st ! nat (zone_id k - 1))) (zoom_factor (animation_frame st)))
                (zoom_channel (blue (zone_colors st ! nat (zone_id k - 1))) (zoom_factor (animation_frame st))))
        (py_int (real_of_int (current_brightness st) * (0.3 + 0.7 * zoom_factor (animation_frame st)))) k)
      (keys st)\<rparr>)"
proof -
  have "for_each (zoom_key st zf) (keys st) =
        Some (map (\<lambda>k. set_color
        (QColor (zoom_channel (red (zone_colors st ! nat (zone_id k - 1))) zf)
                (zoom_channel (green (zone_colors st ! nat (zone_id k - 1))) zf)
                (zoom_channel (blue (zone_colors st ! nat (zone_id k - 1))) zf))
        (py_int (real_of_int (current_brightness st) * (0.3 + 0.7 * zf))) k) (keys st))" for zf
    using assms
    by (intro for_each_map zoom_key_wf) (auto simp add: well_formed_def list_all_iff)
  then show ?thesis by (simp add: animate_zoom_def)
qed

lemma scaled_brightness:
  assumes "0 \<le> b" "b \<le> 100" "0 \<le> f" "f \<le> 1"
  shows "0 \<le> py_int (real_of_int b * f) \<and> py_int (real_of_int b * f) \<le> 100"
proof -
  have nn: "0 \<le> real_of_int b * f" using assms by simp
  have "real_of_int b * f \<le> real_of_int b * 1"
    using assms by (intro mult_left_mono) simp_all
  then have "real_of_int b * f \<le> real_of_int 100" using assms by simp
  with nn show ?thesis using py_int_nonneg py_int_le by blast
qed

lemma zone_color_valid:
  assumes "list_all valid_color zs" "length zs = 4" "1 \<le> z" "z \<le> 4"
  shows "valid_color (zs ! nat (z - 1))"
  using assms by (simp add: list_all_length)

lemma mixed_channel:
  assumes "0 \<le> a" "a \<le> 255" "0 \<le> c" "c \<le> 255" "0 \<le> s" "s \<le> 1"
  shows "0 \<le> py_int (real_of_int a * (1 - s) + real_of_int c * s) \<and>
         py_int (real_of_int a * (1 - s) + real_of_int c * s) \<le> 255"
proof -
  let ?x = "real_of_int a * (1 - s) + real_of_int c * s"
  have nn: "0 \<le> ?x" using assms by simp
  have "real_of_int a * (1 - s) \<le> 255 * (1 - s)"
    using assms by (intro mult_right_mono) simp_all
  moreover have "real_of_int c * s \<le> 255 * s"
    using assms by (intro mult_right_mono) simp_all
  ultimately have "?x \<le> 255 * (1 - s) + 255 * s" by linarith
  then have "?x \<le> real_of_int 255" by (simp add: algebra_simps)
  with nn show ?thesis using py_int_nonneg py_int_le by blast
qed

lemma shift_amount_bounds:
  "0 \<le> sin x * 0.5 + 0.5 \<and> sin x * 0.5 + 0.5 \<le> (1::real)"
  using sin_factor_bounds [of x] by (simp add: field_simps)

lemma zoom_channel_bounds:
  assumes "0 \<le> c" "0 \<le> zf"
  shows "0 \<le> zoom_channel c zf \<and> zoom_channel c zf \<le> 255"
proof -
  have "0 \<le> real_of_int c * (0.8 + 0.2 * zf)" using assms by simp
  then show ?thesis by (simp add: zoom_channel_def py_int_nonneg)
qed

lemma zoom_factor_bounds: "0 \<le> zoom_factor f \<and> zoom_factor f \<le> 1"
  unfolding zoom_factor_def by (rule sin_factor_bounds)

lemma breathing_in_range:
  assumes wf: "well_formed st" and b: "0 \<le> current_brightness st" "current_brightness st \<le> 100"
    and zc: "list_all valid_color (zone_colors st)"
  shows "\<exists>st'. animate_breathing st = Some st' \<and> list_all key_in_range (keys st')"
proof -
  let ?e = "py_int (real_of_int (current_brightness st)
                 * ((sin (real_of_int (animation_frame st) * 0.1) + 1) / 2))"
  have e: "0 \<le> ?e \<and> ?e \<le> 100"
    using b sin_factor_bounds by (intro scaled_brightness) simp_all
  have "key_in_range (set_color (zone_colors st ! nat (zone_id k - 1)) ?e k)"
    if "k \<in> set (keys st)" for k
  proof -
    from that wf have "1 \<le> zone_id k" "zone_id k \<le> 4" "length (zone_colors st) = 4"
      by (auto simp add: well_formed_def list_all_iff)
    with zc have "valid_color (zone_colors st ! nat (zone_id k - 1))"
      by (intro zone_color_valid)
    with e show ?thesis by (intro set_color_in_range) simp_all
  qed
  then show ?thesis
    by (simp add: breathing_wf [OF wf] list_all_iff)
qed

lemma neon_in_range:
  assumes hsv: "\<forall>h. valid_color (hsv h)"
    and b: "0 \<le> current_brightness st" "current_brightness st \<le> 100"
  shows "list_all key_in_range (keys (animate_neon hsv st))"
  using assms
  by (auto simp add: animate_neon_def list_all_iff Let_def intro!: set_color_in_range)

lemma wave_in_range:
  assumes hsv: "\<forall>h. valid_color (hsv h)"
    and b: "0 \<le> current_brightness st" "current_brightness st \<le> 100"
  shows "list_all key_in_range (keys (animate_wave hsv st))"
proof -
  have e: "0 \<le> py_int (real_of_int (current_brightness st) * ((sin x + 1) / 2)) \<and>
           py_int (real_of_int (current_brightness st) * ((sin x + 1) / 2)) \<le> 100" for x
    using b sin_factor_bounds by (intro scaled_brightness) simp_all
  have "key_in_range (wave_key hsv st k)" for k
    unfolding wave_key_def Let_def
    using hsv e by (intro set_color_in_range) simp_all
  then show ?thesis by (simp add: animate_wave_def list_all_iff)
qed

lemma shifting_in_range:
  assumes hsv: "\<forall>h. valid_color (hsv h)"
    and wf: "well_formed st" and b: "0 \<le> current_brightness st" "current_brightness st \<le> 100"
    and zc: "list_all valid_color (zone_colors st)"
  shows "\<exists>st'. animate_shifting hsv st = Some st' \<and> list_all key_in_range (keys st')"
proof -
  from wf have len: "length (zone_colors st) = 4" by (simp add: well_formed_def)
  then have idx: "py_index (zone_colors st) 0 = Some (zone_colors st ! 0)"
    by (simp add: py_index_def)
  from zc len have v0: "valid_color (zone_colors st ! 0)" by (simp add: list_all_length)
  have "key_in_range (shift_key st (zone_colors st ! 0) (hsv h) k)" for h k
  proof -
    have vh: "valid_color (hsv h)" using hsv by simp
    let ?s = "sin (real_of_int (animation_frame st) * 0.05) * 0.5 + 0.5"
    have s: "0 \<le> ?s" "?s \<le> 1" using shift_amount_bounds by simp_all
    have "valid_color (QColor
        (py_int (real_of_int (red (zone_colors st ! 0)) * (1 - ?s) + real_of_int (red (hsv h)) * ?s))
        (py_int (real_of_int (green (zone_colors st ! 0)) * (1 - ?s) + real_of_int (green (hsv h)) * ?s))
        (py_int (real_of_int (blue (zone_colors st ! 0)) * (1 - ?s) + real_of_int (blue (hsv h)) * ?s)))"
      using v0 vh mixed_channel [OF _ _ _ _ s]
      by (simp add: valid_color_def QColor_def)
    then show ?thesis
      unfolding shift_key_def Let_def using b by (intro set_color_in_range)
  qed
  then show ?thesis
    by (simp add: animate_shifting_def Let_def idx list_all_iff)
qed

lemma zoom_in_range:
  assumes wf: "well_formed st" and b: "0 \<le> current_brightness st" "current_brightness st \<le> 100"
    and zc: "list_all valid_color (zone_colors st)"
  shows "\<exists>st'. animate_zoom st = Some st' \<and> list_all key_in_range (keys st')"
proof -
  let ?zf = "zoom_factor (animation_frame st)"
  let ?e = "py_int (real_of_int (current_brightness st) * (0.3 + 0.7 * ?zf))"
  have zf: "0 \<le> ?zf" "?zf \<le> 1" using zoom_factor_bounds by simp_all
  then have "0 \<le> 0.3 + 0.7 * ?zf" "0.3 + 0.7 * ?zf \<le> 1" by simp_all
  with b have e: "0 \<le> ?e \<and> ?e \<le> 100" by (intro scaled_brightness)
  have "key_in_range (set_color
        (QColor (zoom_channel (red (zone_colors st ! nat (zone_id k - 1))) ?zf)
                (zoom_channel (green (zone_colors st ! nat (zone_id k - 1))) ?zf)
                (zoom_channel (blue (zone_colors st ! nat (zone_id k - 1))) ?zf)) ?e k)"
    if "k \<in> set (keys st)" for k
  proof -
    from that wf have "1 \<le> zone_id k" "zone_id k \<le> 4" "length (zone_colors st) = 4"
      by (auto simp add: well_formed_def list_all_iff)
    with zc have "valid_color (zone_colors st ! nat (zone_id k - 1))"
      by (intro zone_color_valid)
    then have "valid_color (QColor (zoom_channel (red (zone_colors st ! nat (zone_id k - 1))) ?zf)
                (zoom_channel (green (zone_colors st ! nat (zone_id k - 1))) ?zf)
                (zoom_channel (blue (zone_colors st ! nat (zone_id k - 1))) ?zf))"
      using zoom_channel_bounds [OF _ zf(1)] by (simp add: valid_color_def QColor_def)
    with e show ?thesis by (intro set_color_in_range) simp_all
  qed
  then show ?thesis
    by (simp add: zoom_wf [OF wf] list_all_iff)
qed

lemma update_keys_result:
  assumes "well_formed st"
  shows "\<exists>ks. update_keys st = Some (st\<lparr>keys := ks\<rparr>) \<and> well_formed (st\<lparr>keys := ks\<rparr>)"
  using assms
  by (intro exI [of _ "map (\<lambda>k. set_color (zone_colors st ! nat (zone_id k - 1))
        (current_brightness st) k) (keys st)"])
     (simp add: update_keys_wf well_formed_def list_all_iff)

lemma py_store_in_range:
  "0 \<le> i \<Longrightarrow> i < int (length xs) \<Longrightarrow> py_store xs i v = Some (xs[nat i := v])"
  by (simp add: py_store_def)

lemma store_all_four:
  assumes "length zs = 4"
  shows "store_all zs [0, 1, 2, 3] c = Some (replicate 4 c)"
proof -
  from assms obtain a b d e where "zs = [a, b, d, e]"
    by (auto simp add: length_Suc_conv eval_nat_numeral)
  then show ?thesis by (simp add: py_store_def eval_nat_numeral)
qed

lemma update_color_result:
  assumes "well_formed st" "current_mode st \<in> {0, 1, 4, 5}"
  shows "\<exists>ks. update_color c st = Some (st\<lparr>zone_colors := replicate 4 c, keys := ks\<rparr>) \<and>
              well_formed (st\<lparr>zone_colors := replicate 4 c, keys := ks\<rparr>)"
proof -
  let ?s = "st\<lparr>zone_colors := replicate 4 c\<rparr>"
  from assms(1) have len: "length (zone_colors st) = 4" by (simp add: well_formed_def)
  from assms(1) have "well_formed ?s" by (simp add: well_formed_def)
  from update_keys_result [OF this] obtain ks where
    ks: "update_keys ?s = Some (?s\<lparr>keys := ks\<rparr>)" "well_formed (?s\<lparr>keys := ks\<rparr>)" by blast
  have "update_color c st = Some (?s\<lparr>keys := ks\<rparr>)"
    using assms(2) store_all_four [OF len] ks(1) by (simp add: update_color_def)
  with ks(2) show ?thesis by (intro exI [of _ ks]) simp
qed

lemma update_color_ignored:
  "current_mode st \<notin> {0, 1, 4, 5} \<Longrightarrow> update_color c st = Some st"
  by (simp add: update_color_def)

lemma update_zone_color_result:
  assumes "well_formed st"
  shows "\<exists>ks. update_zone_color z c st =
           Some (st\<lparr>zone_colors := (if 1 \<le> z \<and> z \<le> 4 then (zone_colors st)[nat (z - 1) := c]
                                     else zone_colors st),
                     keys := ks\<rparr>) \<and>
         well_formed (st\<lparr>zone_colors := (if 1 \<le> z \<and> z \<le> 4 then (zone_colors st)[nat (z - 1) := c]
                                     else zone_colors st), keys := ks\<rparr>)"
proof (cases "1 \<le> z \<and> z \<le> 4")
  case True
  let ?s = "st\<lparr>zone_colors := (zone_colors st)[nat (z - 1) := c]\<rparr>"
  from assms have len: "length (zone_colors st) = 4" by (simp add: well_formed_def)
  with True have st: "py_store (zone_colors st) (z - 1) c = Some ((zone_colors st)[nat (z - 1) := c])"
    by (intro py_store_in_range) simp_all
  from assms have "well_formed ?s" by (simp add: well_formed_def)
  from update_keys_result [OF this] obtain ks where
    ks: "update_keys ?s = Some (?s\<lparr>keys := ks\<rparr>)" "well_formed (?s\<lparr>keys := ks\<rparr>)" by blast
  have "update_zone_color z c st = Some (?s\<lparr>keys := ks\<rparr>)"
    using True st ks(1) by (simp add: update_zone_color_def)
  with ks(2) True show ?thesis by (intro exI [of _ ks]) simp
next
  case False
  with assms show ?thesis
    by (intro exI [of _ "keys st"]) (auto simp add: update_zone_color_def)
qed

lemma update_mode_result:
  assumes "well_formed st"
  shows "\<exists>ks. update_mode m st =
           Some (st\<lparr>current_mode := m, keys := ks, timer_active := animated_mode m,
                     timer_interval := (if animated_mode m then 100 else timer_interval st)\<rparr>) \<and>
         well_formed (st\<lparr>current_mode := m, keys := ks, timer_active := animated_mode m,
                     timer_interval := (if animated_mode m then 100 else timer_interval st)\<rparr>)"
proof (cases "animated_mode m")
  case True
  let ?s = "st\<lparr>current_mode := m, timer_active := True, timer_interval := 100\<rparr>"
  from assms have "well_formed ?s" by (simp add: well_formed_def)
  from update_keys_result [OF this] obtain ks where
    ks: "update_keys ?s = Some (?s\<lparr>keys := ks\<rparr>)" "well_formed (?s\<lparr>keys := ks\<rparr>)" by blast
  have "update_mode m st = Some (?s\<lparr>keys := ks\<rparr>)"
    using True ks(1)
    by (simp add: update_mode_def update_animation_mode_def start_animation_def)
  with ks(2) True show ?thesis by (intro exI [of _ ks]) (simp add: well_formed_def)
next
  case False
  let ?s = "st\<lparr>current_mode := m, timer_active := False\<rparr>"
  from assms have "well_formed ?s" by (simp add: well_formed_def)
  from update_keys_result [OF this] obtain ks where
    1: "update_keys ?s = Some (?s\<lparr>keys := ks\<rparr>)" and 2: "well_formed (?s\<lparr>keys := ks\<rparr>)" by blast
  from update_keys_result [OF 2] obtain ks' where
    3: "update_keys (?s\<lparr>keys := ks\<rparr>) = Some (?s\<lparr>keys := ks'\<rparr>)"
    and 4: "well_formed (?s\<lparr>keys := ks'\<rparr>)" by auto
  have "update_mode m st = Some (?s\<lparr>keys := ks'\<rparr>)"
    using False 1 3 by (simp add: update_mode_def update_animation_mode_def)
  with 4 False show ?thesis by (intro exI [of _ ks']) (simp add: well_formed_def)
qed

lemma ramp_bounds:
  fixes m :: int
  assumes "0 \<le> m" "m < 60"
  shows "0 \<le> (m * 255) div 60 \<and> (m * 255) div 60 \<le> 255"
proof -
  have "0 \<le> m * 255" using assms by simp
  then have a: "0 \<le> (m * 255) div 60" by (simp add: pos_imp_zdiv_nonneg_iff)
  have "m * 255 < 256 * 60" using assms by linarith
  then have "(m * 255) div 60 < 256" by (simp add: div_less_iff_less_mult)
  with a show ?thesis by simp
qed

lemma sample_hsv_valid: "valid_color (sample_hsv h)"
proof -
  have "0 \<le> ((h mod 60) * 255) div 60 \<and> ((h mod 60) * 255) div 60 \<le> 255"
    by (intro ramp_bounds) simp_all
  then show ?thesis
    by (simp add: sample_hsv_def valid_color_def QColor_def Let_def)
qed

lemmas init_defs =
  init_def create_keyboard_layout_def layout_key_def py_index_def eval_nat_numeral
  start_animation_def animated_mode_def set_color_def set_zone_def KeyWidget_def QColor_def

lemma init_shape:
  "\<exists>st. init = Some st \<and> current_mode st = 3 \<and> current_brightness st = 100 \<and>
       animation_frame st = 0 \<and> current_speed st = 5 \<and> timer_active st \<and>
       timer_interval st = 100 \<and> list_all valid_color (zone_colors st) \<and> well_formed st"
  by (simp add: init_defs valid_color_def well_formed_def)

lemma for_each_results:
  "for_each f xs = Some ys \<Longrightarrow> list_all2 (\<lambda>x y. f x = Some y) xs ys"
  by (induction xs arbitrary: ys) (auto split: option.splits)

lemma init_then_mode:
  "\<exists>st. Option.bind init (update_mode m) = Some st \<and> current_mode st = m \<and>
        animation_frame st = 0 \<and> current_brightness st = 100 \<and> current_speed st = 5 \<and>
        timer_active st = animated_mode m \<and> list_all valid_color (zone_colors st) \<and>
        well_formed st"
proof -
  from init_shape obtain st where st: "init = Some st" "current_brightness st = 100"
    "animation_frame st = 0" "current_speed st = 5"
    "list_all valid_color (zone_colors st)" "well_formed st"
    by blast
  from update_mode_result [OF st(6), of m] obtain st' where
    "update_mode m st = Some st'" "well_formed st'" "current_mode st' = m"
    "animation_frame st' = animation_frame st" "current_brightness st' = current_brightness st"
    "current_speed st' = current_speed st" "timer_active st' = animated_mode m"
    "zone_colors st' = zone_colors st"
    by auto
  with st(2-) show ?thesis unfolding st(1) by simp
qed

lemma shifting_wf:
  assumes "well_formed st"
  shows "animate_shifting hsv st =
    Some (st\<lparr>keys := map (shift_key st (zone_colors st ! 0) (hsv ((animation_frame st * 2) mod 360)))
                         (keys st)\<rparr>)"
  using assms by (simp add: animate_shifting_def Let_def py_index_def well_formed_def)

lemma update_animation_frame:
  assumes "well_formed st"
  shows "\<exists>st'. update_animation hsv st = Some st' \<and> animation_frame st' = animation_frame st + 1"
proof -
  let ?st1 = "st\<lparr>animation_frame := animation_frame st + 1\<rparr>"
  have wf1: "well_formed ?st1" using assms by (simp add: well_formed_def)
  show ?thesis
    by (simp add: update_animation_def Let_def breathing_wf [OF wf1] shifting_wf [OF wf1]
        zoom_wf [OF wf1] animate_neon_def animate_wave_def)
qed

lemma zoom_channel_le: "zoom_channel c zf \<le> 255"
  by (simp add: zoom_channel_def)

lemma zoom_key_clamped:
  assumes "zoom_key st zf k = Some k'"
  shows "red (current_color k') \<le> 255 \<and> green (current_color k') \<le> 255 \<and>
         blue (current_color k') \<le> 255"
  using assms
  by (auto simp add: zoom_key_def Let_def QColor_def zoom_channel_le split: option.splits)

lemma color_step:
  fixes s1 :: preview and z :: int and c :: color and zs :: "color list"
  assumes wf: "well_formed s1"
  defines "zs \<equiv>
     (if current_mode s1 = 0
      then (if 1 \<le> z \<and> z \<le> 4 then (zone_colors s1)[nat (z - 1) := c] else zone_colors s1)
      else if current_mode s1 \<in> {1, 4, 5} then replicate 4 c
      else zone_colors s1)"
  shows "\<exists>ks. (if current_mode s1 = 0 then update_zone_color z c s1 else update_color c s1)
             = Some (s1\<lparr>zone_colors := zs, keys := ks\<rparr>) \<and>
            well_formed (s1\<lparr>zone_colors := zs, keys := ks\<rparr>)"
proof (cases "current_mode s1 = 0")
  case True
  with update_zone_color_result [OF wf, of z c] show ?thesis by (simp add: zs_def)
next
  case False
  show ?thesis
  proof (cases "current_mode s1 \<in> {1, 4, 5}")
    case True
    then have "current_mode s1 \<in> {0, 1, 4, 5}" by auto
    from update_color_result [OF wf this, of c] True False show ?thesis by (simp add: zs_def)
  next
    case False
    with \<open>current_mode s1 \<noteq> 0\<close> have n: "current_mode s1 \<notin> {0, 1, 4, 5}" by simp
    have "zs = zone_colors s1" using False \<open>current_mode s1 \<noteq> 0\<close> by (simp add: zs_def)
    with update_color_ignored [OF n, of c] \<open>current_mode s1 \<noteq> 0\<close> wf show ?thesis
      by (intro exI [of _ "keys s1"]) simp
  qed
qed

lemma update_from_state_result:
  fixes st :: preview and p :: state_dict and m s z :: int and c :: color
  assumes wf: "well_formed st"
  defines "m \<equiv> dict_get (get_mode p) 3"
    and "s \<equiv> dict_get (get_speed p) 5"
    and "c \<equiv> (case dict_get (get_color p) (50, 255, 50) of (r, g, b) \<Rightarrow> QColor r g b)"
    and "z \<equiv> dict_get (get_zone p) 1"
  shows "\<exists>st'. update_from_state p st = Some st' \<and> well_formed st' \<and>
      current_mode st' = m \<and>
      current_brightness st' = dict_get (get_brightness p) 100 \<and>
      current_speed st' = s \<and>
      current_direction st' = dict_get (get_direction p) 1 \<and>
      animation_frame st' = animation_frame st \<and>
      zone_colors st' =
        (if m = 0 then (if 1 \<le> z \<and> z \<le> 4 then (zone_colors st)[nat (z - 1) := c]
                        else zone_colors st)
         else if m \<in> {1, 4, 5} then replicate 4 c
         else zone_colors st) \<and>
      timer_active st' = animated_mode m \<and>
      timer_interval st' =
        (if animated_mode m then max 50 (250 - s * 20) else timer_interval st)"
proof -
  define st1 where "st1 = st\<lparr>current_mode := m,
                    current_brightness := dict_get (get_brightness p) 100,
                    current_speed := s,
                    current_direction := dict_get (get_direction p) 1\<rparr>"
  have sel1: "current_mode st1 = m" "current_speed st1 = s"
    "current_brightness st1 = dict_get (get_brightness p) 100"
    "current_direction st1 = dict_get (get_direction p) 1"
    "animation_frame st1 = animation_frame st" "zone_colors st1 = zone_colors st"
    "timer_interval st1 = timer_interval st"
    by (simp_all add: st1_def)
  have wf1: "well_formed st1" using wf by (simp add: well_formed_def st1_def)
  from color_step [OF wf1, of z c] obtain st2 where
    step2: "(if current_mode st1 = 0 then update_zone_color z c st1 else update_color c st1)
             = Some st2"
    and wf2: "well_formed st2"
    and sel2: "current_mode st2 = m" "current_speed st2 = s"
      "current_brightness st2 = dict_get (get_brightness p) 100"
      "current_direction st2 = dict_get (get_direction p) 1"
      "animation_frame st2 = animation_frame st"
      "timer_interval st2 = timer_interval st"
      "zone_colors st2 =
        (if m = 0 then (if 1 \<le> z \<and> z \<le> 4 then (zone_colors st)[nat (z - 1) := c]
                        else zone_colors st)
         else if m \<in> {1, 4, 5} then replicate 4 c
         else zone_colors st)"
    using sel1 by auto
  from update_mode_result [OF wf2, of m] obtain ks' where
    raw3: "update_mode m st2 =
       Some (st2\<lparr>current_mode := m, keys := ks', timer_active := animated_mode m,
                 timer_interval := (if animated_mode m then 100 else timer_interval st2)\<rparr>)"
      "well_formed (st2\<lparr>current_mode := m, keys := ks', timer_active := animated_mode m,
                 timer_interval := (if animated_mode m then 100 else timer_interval st2)\<rparr>)"
    by blast
  define st3 where "st3 = st2\<lparr>current_mode := m, keys := ks', timer_active := animated_mode m,
                 timer_interval := (if animated_mode m then 100 else timer_interval st2)\<rparr>"
  from raw3 have step3: "update_mode m st2 = Some st3" and wf3: "well_formed st3"
    by (simp_all add: st3_def)
  have sel3: "current_mode st3 = m" "current_speed st3 = s"
      "current_brightness st3 = dict_get (get_brightness p) 100"
      "current_direction st3 = dict_get (get_direction p) 1"
      "animation_frame st3 = animation_frame st"
      "zone_colors st3 = zone_colors st2"
      "timer_active st3 = animated_mode m"
      "timer_interval st3 = (if animated_mode m then 100 else timer_interval st)"
    using sel2 by (simp_all add: st3_def)
  have unfolded: "update_from_state p st =
      (case (if current_mode st1 = 0 then update_zone_color z c st1 else update_color c st1) of
         None \<Rightarrow> None
       | Some st2 \<Rightarrow>
           (case update_mode (current_mode st2) st2 of
              None \<Rightarrow> None
            | Some st3 \<Rightarrow> Some (update_speed (current_speed st3) st3)))"
    by (simp add: update_from_state_def Let_def st1_def m_def s_def c_def z_def)
  have "update_from_state p st = Some (update_speed (current_speed st3) st3)"
    unfolding unfolded step2 using step3 sel2(1) by simp
  moreover have "well_formed (update_speed (current_speed st3) st3)"
    using wf3 by (simp add: update_speed_def update_animation_speed_def well_formed_def)
  ultimately show ?thesis
    using sel3 sel2(7)
    by (simp add: update_speed_def update_animation_speed_def)
qed

lemma init_fields:
  "map_option current_mode init = Some 3 \<and> map_option timer_active init = Some True \<and>
   map_option current_speed init = Some 5 \<and> map_option timer_interval init = Some 100"
  by (simp add: init_defs)

lemma for_each_length: "for_each f xs = Some ys \<Longrightarrow> length ys = length xs"
  by (induction xs arbitrary: ys) (auto split: option.splits)

lemma update_keys_length:
  "update_keys st = Some st' \<Longrightarrow> length (keys st') = length (keys st)"
  by (auto simp add: update_keys_def split: option.splits dest: for_each_length)

lemma update_mode_length:
  "update_mode m st = Some st' \<Longrightarrow> length (keys st') = length (keys st)"
  by (auto simp add: update_mode_def update_animation_mode_def start_animation_def
      split: option.splits if_splits dest!: update_keys_length)

lemma update_brightness_result:
  assumes "well_formed st"
  shows "\<exists>st'. update_brightness b st = Some st' \<and> well_formed st' \<and>
           current_brightness st' = b \<and> animation_frame st' = animation_frame st \<and>
           current_mode st' = current_mode st \<and> length (keys st') = length (keys st)"
proof -
  from assms have "well_formed (st\<lparr>current_brightness := b\<rparr>)" by (simp add: well_formed_def)
  from update_keys_result [OF this] obtain ks where
    ks: "update_keys (st\<lparr>current_brightness := b\<rparr>) = Some (st\<lparr>current_brightness := b, keys := ks\<rparr>)"
    "well_formed (st\<lparr>current_brightness := b, keys := ks\<rparr>)" by blast
  from update_keys_length [OF ks(1)] ks show ?thesis
    by (simp add: update_brightness_def)
qed

lemma init_length: "map_option (length \<circ> keys) init = Some 36"
  by (simp add: init_defs)

lemma dim_breathing_preview:
  "\<exists>st. Option.bind (Option.bind init (update_mode 1)) (update_brightness 3) = Some st \<and>
        well_formed st \<and> current_mode st = 1 \<and> current_brightness st = 3 \<and>
        animation_frame st = 0 \<and> length (keys st) = 36"
proof -
  from init_then_mode [of 1] obtain st1 where
    st1: "Option.bind init (update_mode 1) = Some st1" "current_mode st1 = 1"
    "animation_frame st1 = 0" "well_formed st1" by blast
  from init_shape obtain st0 where st0: "init = Some st0" by blast
  from init_length have "length (keys st0) = 36" unfolding st0 by simp
  moreover from st1(1) have "update_mode 1 st0 = Some st1" unfolding st0 by simp
  ultimately have len: "length (keys st1) = 36" using update_mode_length by fastforce
  from update_brightness_result [OF st1(4), of 3] st1 len show ?thesis
    unfolding st1(1) by auto
qed

lemma sin_tenth_bounds: "0 \<le> sin (1 / 10 :: real) \<and> sin (1 / 10 :: real) \<le> 1 / 10"
proof -
  have "(1 / 10 :: real) \<le> pi" using pi_ge_two by linarith
  then have "0 \<le> sin (1 / 10 :: real)" by (intro sin_ge_zero) simp_all
  moreover have "sin (1 / 10 :: real) \<le> 1 / 10" by (intro sin_x_le_x) simp
  ultimately show ?thesis by simp
qed

lemma first_frame_product:
  "3 / 2 \<le> 3 * ((sin (1 / 10 :: real) + 1) / 2) \<and> 3 * ((sin (1 / 10 :: real) + 1) / 2) < 2"
  using sin_tenth_bounds by simp

lemma first_frame_truncated: "py_int (3 * ((sin (1 / 10 :: real) + 1) / 2)) = 1"
proof -
  let ?x = "3 * ((sin (1 / 10 :: real) + 1) / 2)"
  from first_frame_product have a: "1 \<le> ?x" "?x < 2"
    by linarith+
  have "\<lfloor>?x\<rfloor> = 1"
  proof (rule floor_unique)
    show "of_int 1 \<le> ?x" using a(1) by simp
    show "?x < of_int 1 + 1" using a(2) by simp
  qed
  moreover have "0 \<le> 3 * ((sin (1 / 10 :: real) + 1) / 2)"
    using first_frame_product by linarith
  ultimately show ?thesis by (simp only: py_int_def if_True)
qed

lemma first_frame_rounded: "round (3 * ((sin (1 / 10 :: real) + 1) / 2)) = 2"
proof -
  let ?x = "3 * ((sin (1 / 10 :: real) + 1) / 2)"
  from first_frame_product have a: "2 \<le> ?x + 1 / 2" "?x + 1 / 2 < 3"
    by linarith+
  have "\<lfloor>?x + 1 / 2\<rfloor> = 2"
  proof (rule floor_unique)
    show "of_int 2 \<le> ?x + 1 / 2" using a(1) by simp
    show "?x + 1 / 2 < of_int 2 + 1" using a(2) by simp
  qed
  then show ?thesis by (simp only: round_def)
qed

lemma set_color_twice: "set_color c b (set_color c' b' k) = set_color c b k"
  by (simp add: set_color_def Let_def)

lemma update_keys_idempotent:
  assumes wf: "well_formed st" and upd: "update_keys st = Some st'"
  shows "update_keys st' = Some st'"
proof -
  let ?paint = "\<lambda>k. set_color (zone_colors st ! nat (zone_id k - 1)) (current_brightness st) k"
  from upd update_keys_wf [OF wf] have st': "st' = st\<lparr>keys := map ?paint (keys st)\<rparr>" by simp
  from update_keys_result [OF wf] upd have wf': "well_formed st'" by auto
  have "update_keys st' = Some (st'\<lparr>keys := map ?paint (keys st')\<rparr>)"
    using update_keys_wf [OF wf'] by (simp add: st')
  moreover have "map ?paint (keys st') = keys st'"
    by (simp add: st' set_color_twice)
  ultimately show ?thesis by simp
qed

lemma painted_in_range:
  assumes wf: "well_formed st" and b: "0 \<le> current_brightness st" "current_brightness st \<le> 100"
    and zc: "list_all valid_color (zone_colors st)"
    and painted: "update_keys st = Some st"
  shows "list_all key_in_range (keys st)"
proof -
  let ?paint = "\<lambda>k. set_color (zone_colors st ! nat (zone_id k - 1)) (current_brightness st) k"
  from painted update_keys_wf [OF wf] have "st\<lparr>keys := map ?paint (keys st)\<rparr> = st" by simp
  then have "keys (st\<lparr>keys := map ?paint (keys st)\<rparr>) = keys st" by (rule arg_cong)
  then have eq: "map ?paint (keys st) = keys st" by simp
  have "key_in_range (?paint k)" if "k \<in> set (keys st)" for k
  proof -
    from that wf have "1 \<le> zone_id k" "zone_id k \<le> 4" "length (zone_colors st) = 4"
      by (auto simp add: well_formed_def list_all_iff)
    with zc have "valid_color (zone_colors st ! nat (zone_id k - 1))"
      by (intro zone_color_valid)
    with b show ?thesis by (intro set_color_in_range)
  qed
  then have "list_all key_in_range (map ?paint (keys st))" by (simp add: list_all_iff)
  with eq show ?thesis by simp
qed

lemma tick_zones:
  assumes wf: "well_formed st" and tick: "update_animation hsv st = Some st'"
  shows "map zone_id (keys st') = map zone_id (keys st)"
proof -
  let ?st1 = "st\<lparr>animation_frame := animation_frame st + 1\<rparr>"
  have wf1: "well_formed ?st1" using wf by (simp add: well_formed_def)
  have neon: "map zone_id (keys (animate_neon hsv ?st1)) = map zone_id (keys st)"
  proof -
    have "map zone_id (keys (animate_neon hsv ?st1)) = map (zone_id \<circ> snd) (enumerate 0 (keys st))"
      by (simp add: animate_neon_def Let_def comp_def case_prod_unfold)
    also have "\<dots> = map zone_id (map snd (enumerate 0 (keys st)))" by (simp only: map_map)
    also have "\<dots> = map zone_id (keys st)" by (simp only: map_snd_enumerate)
    finally show ?thesis .
  qed
  have wave: "map zone_id (keys (animate_wave hsv ?st1)) = map zone_id (keys st)"
    by (simp add: animate_wave_def wave_key_def Let_def comp_def)
  from tick show ?thesis
    by (auto simp add: update_animation_def Let_def breathing_wf [OF wf1] shifting_wf [OF wf1]
        zoom_wf [OF wf1] neon wave shift_key_def comp_def split: if_splits)
qed

lemma update_keys_zones:
  assumes "well_formed st" "update_keys st = Some st'"
  shows "map zone_id (keys st') = map zone_id (keys st)"
  using assms update_keys_wf [OF assms(1)] by (auto simp add: comp_def)

lemma update_mode_static:
  assumes wf: "well_formed st"
  shows "\<exists>st0. update_mode 0 st = Some st0 \<and> current_mode st0 = 0 \<and>
           update_keys st0 = Some st0 \<and> well_formed st0 \<and>
           current_brightness st0 = current_brightness st \<and> zone_colors st0 = zone_colors st \<and>
           map zone_id (keys st0) = map zone_id (keys st)"
proof -
  let ?s = "st\<lparr>current_mode := 0, timer_active := False\<rparr>"
  have wfs: "well_formed ?s" using wf by (simp add: well_formed_def)
  from update_keys_result [OF wfs] obtain s1 where
    1: "update_keys ?s = Some s1" and wf1: "well_formed s1" by blast
  from update_keys_idempotent [OF wfs 1] have 2: "update_keys s1 = Some s1" .
  from 1 update_keys_wf [OF wfs] have sel: "current_mode s1 = 0"
    "current_brightness s1 = current_brightness st" "zone_colors s1 = zone_colors st"
    by auto
  from update_keys_zones [OF wfs 1] have z: "map zone_id (keys s1) = map zone_id (keys st)"
    by simp
  have "update_mode 0 st = Some s1"
    using 1 2 by (simp add: update_mode_def update_animation_mode_def animated_mode_def)
  with 2 wf1 sel z show ?thesis by blast
qed

section \<open>The claims\<close>

text \<open>
  C1. One tick keeps every key in range. Take a preview of four zones whose keys have zones
  1..4, in a mode from 0 (Static) to 5 (Zoom), with any frame counter, a brightness from 0
  to 100 and zone colours with channels from 0 to 255. In each of the modes 1..5
  \<open>update_animation\<close> returns, and afterwards every key holds a brightness from 0 to 100,
  a stored colour and a shown colour with channels from 0 to 255; the keys are the same
  keys, zone by zone. In Static mode the tick writes no key, so what is displayed is what
  the last repaint wrote: the same holds when the keys are painted from the current
  settings (\<open>update_keys st = Some st\<close>). That is how the code leaves a Static preview:
  \<open>update_mode\<close> to mode 0 ends in such a preview, and so does every repaint
  (\<open>update_keys\<close>, the last step of each method that changes a colour or the brightness).
\<close>

theorem tick_outputs_in_range:
  assumes hsv: "\<forall>h. valid_color (hsv h)"
    and mode: "current_mode st \<in> {0, 1, 2, 3, 4, 5}"
    and b: "0 \<le> current_brightness st" "current_brightness st \<le> 100"
    and zc: "list_all valid_color (zone_colors st)"
    and wf: "well_formed st"
  shows "(current_mode st \<noteq> 0 \<or> update_keys st = Some st \<longrightarrow>
            (\<exists>st'. update_animation hsv st = Some st' \<and>
                   list_all key_in_range (keys st') \<and>
                   map zone_id (keys st') = map zone_id (keys st))) \<and>
         (\<exists>st0. update_mode 0 st = Some st0 \<and> current_mode st0 = 0 \<and>
                update_keys st0 = Some st0 \<and> well_formed st0 \<and>
                current_brightness st0 = current_brightness st \<and>
                zone_colors st0 = zone_colors st \<and>
                map zone_id (keys st0) = map zone_id (keys st)) \<and>
         (\<exists>st1. update_keys st = Some st1 \<and> update_keys st1 = Some st1)"
proof -
  let ?st1 = "st\<lparr>animation_frame := animation_frame st + 1\<rparr>"
  have wf1: "well_formed ?st1" using wf by (simp add: well_formed_def)
  have b1: "0 \<le> current_brightness ?st1" "current_brightness ?st1 \<le> 100" using b by simp_all
  have zc1: "list_all valid_color (zone_colors ?st1)" using zc by simp
  have ranged: "\<exists>st'. update_animation hsv st = Some st' \<and> list_all key_in_range (keys st')"
    if "current_mode st \<noteq> 0 \<or> update_keys st = Some st"
  proof -
    consider "current_mode st = 0" | "current_mode st = 1" | "current_mode st = 2"
      | "current_mode st = 3" | "current_mode st = 4" | "current_mode st = 5"
      using mode by auto
    then show ?thesis
    proof cases
      case 1
      with that have "update_keys st = Some st" by simp
      from painted_in_range [OF wf b zc this] 1 show ?thesis
        by (simp add: update_animation_def Let_def)
    next
      case 2
      with breathing_in_range [OF wf1 b1 zc1] show ?thesis
        by (simp add: update_animation_def Let_def)
    next
      case 3
      with neon_in_range [OF hsv b1] show ?thesis
        by (simp add: update_animation_def Let_def)
    next
      case 4
      with wave_in_range [OF hsv b1] show ?thesis
        by (simp add: update_animation_def Let_def)
    next
      case 5
      with shifting_in_range [OF hsv wf1 b1 zc1] show ?thesis
        by (simp add: update_animation_def Let_def)
    next
      case 6
      with zoom_in_range [OF wf1 b1 zc1] show ?thesis
        by (simp add: update_animation_def Let_def)
    qed
  qed
  have tick: "\<exists>st'. update_animation hsv st = Some st' \<and> list_all key_in_range (keys st') \<and>
                map zone_id (keys st') = map zone_id (keys st)"
    if "current_mode st \<noteq> 0 \<or> update_keys st = Some st"
    using ranged [OF that] tick_zones [OF wf] by blast
  from update_keys_result [OF wf] obtain st1 where st1: "update_keys st = Some st1" by blast
  from update_keys_idempotent [OF wf st1] st1
  have repaint: "\<exists>st1. update_keys st = Some st1 \<and> update_keys st1 = Some st1" by blast
  from tick update_mode_static [OF wf] repaint show ?thesis by blast
qed

theorem tick_outputs_in_range_witness:
  "(\<forall>h. valid_color (sample_hsv h)) \<and>
   (\<exists>st. init = Some st \<and> current_mode st = 3 \<and> current_brightness st = 100 \<and>
      list_all valid_color (zone_colors st) \<and> well_formed st \<and>
      (\<exists>st'. update_animation sample_hsv st = Some st' \<and> list_all key_in_range (keys st') \<and>
             map zone_id (keys st') = map zone_id (keys st)) \<and>
      (\<exists>st0. update_mode 0 st = Some st0 \<and> current_mode st0 = 0 \<and>
             update_keys st0 = Some st0 \<and> well_formed st0 \<and>
             current_brightness st0 = 100 \<and> list_all valid_color (zone_colors st0) \<and>
             (\<exists>st'. update_animation sample_hsv st0 = Some st' \<and>
                    list_all key_in_range (keys st') \<and>
                    map zone_id (keys st') = map zone_id (keys st0))))"
proof -
  from init_shape obtain st where st: "init = Some st" "current_mode st = 3"
    "current_brightness st = 100" "list_all valid_color (zone_colors st)" "well_formed st"
    by blast
  have hsv: "\<forall>h. valid_color (sample_hsv h)" by (simp add: sample_hsv_valid)
  have m: "current_mode st \<in> {0, 1, 2, 3, 4, 5}" and b: "0 \<le> current_brightness st"
    "current_brightness st \<le> 100" and n0: "current_mode st \<noteq> 0"
    using st by simp_all
  note first = tick_outputs_in_range [OF hsv m b st(4) st(5)]
  from first n0 have tick: "\<exists>st'. update_animation sample_hsv st = Some st' \<and>
      list_all key_in_range (keys st') \<and> map zone_id (keys st') = map zone_id (keys st)"
    by blast
  from first obtain st0 where st0: "update_mode 0 st = Some st0" "current_mode st0 = 0"
    "update_keys st0 = Some st0" "well_formed st0"
    "current_brightness st0 = current_brightness st" "zone_colors st0 = zone_colors st"
    by blast
  have m0: "current_mode st0 \<in> {0, 1, 2, 3, 4, 5}" and b0: "0 \<le> current_brightness st0"
    "current_brightness st0 \<le> 100" and zc0: "list_all valid_color (zone_colors st0)"
    using st0 st by simp_all
  from tick_outputs_in_range [OF hsv m0 b0 zc0 st0(4)] st0(3)
  have tick0: "\<exists>st'. update_animation sample_hsv st0 = Some st' \<and>
      list_all key_in_range (keys st') \<and> map zone_id (keys st') = map zone_id (keys st0)"
    by blast
  have "current_brightness st0 = 100" using st0(5) st(3) by simp
  with hsv st tick st0 zc0 tick0 show ?thesis by blast
qed

text \<open>
  C2, as the code has it. In Breathing mode, for every frame counter \<open>f\<close> and brightness
  \<open>b \<ge> 0\<close>, every key gets the brightness \<open>b * (sin (f * 0.1) + 1) / 2\<close> truncated to
  an integer, as \<^verbatim>\<open>int()\<close> does, and keeps the base colour of its zone as its stored colour;
  the zone colours are unchanged.
\<close>

theorem breathing_brightness_truncated:
  assumes "well_formed st" "0 \<le> current_brightness st"
  shows "\<exists>st'. animate_breathing st = Some st' \<and> zone_colors st' = zone_colors st \<and>
     list_all (\<lambda>k. brightness k =
                      \<lfloor>real_of_int (current_brightness st)
                        * ((sin (real_of_int (animation_frame st) * 0.1) + 1) / 2)\<rfloor> \<and>
                    py_index (zone_colors st) (zone_id k - 1) = Some (current_color k))
       (keys st')"
proof -
  have "0 \<le> real_of_int (current_brightness st)
                        * ((sin (real_of_int (animation_frame st) * 0.1) + 1) / 2)"
    using assms(2) sin_factor_bounds [of "real_of_int (animation_frame st) * 0.1"] by simp
  then have fl: "py_int (real_of_int (current_brightness st)
                        * ((sin (real_of_int (animation_frame st) * 0.1) + 1) / 2)) =
      \<lfloor>real_of_int (current_brightness st)
                        * ((sin (real_of_int (animation_frame st) * 0.1) + 1) / 2)\<rfloor>"
    by (simp only: py_int_def if_True)
  have idx: "py_index (zone_colors st) (zone_id k - 1) = Some (zone_colors st ! nat (zone_id k - 1))"
    if "k \<in> set (keys st)" for k
    using that assms(1) by (auto simp add: well_formed_def list_all_iff py_index_def)
  show ?thesis
    unfolding breathing_wf [OF assms(1)] fl
    using idx by (simp add: list_all_iff)
qed

theorem breathing_brightness_truncated_witness:
  "\<exists>st. init = Some st \<and> well_formed st \<and> 0 \<le> current_brightness st \<and>
     (\<exists>st'. animate_breathing st = Some st' \<and> zone_colors st' = zone_colors st \<and>
        list_all (\<lambda>k. brightness k =
                      \<lfloor>real_of_int (current_brightness st)
                        * ((sin (real_of_int (animation_frame st) * 0.1) + 1) / 2)\<rfloor> \<and>
                    py_index (zone_colors st) (zone_id k - 1) = Some (current_color k))
       (keys st'))"
proof -
  from init_shape obtain st where st: "init = Some st" "well_formed st"
    "current_brightness st = 100" by blast
  then have "0 \<le> current_brightness st" by simp
  from breathing_brightness_truncated [OF st(2) this] st(1,2) this show ?thesis by blast
qed

text \<open>
  C2 as stated, with rounding, fails. Take the initial preview, put it in Breathing mode
  with brightness 3, and deliver the first tick: the frame counter becomes 1, the sine of
  0.1 lies between 0 and 0.1, so the product lies between 1.5 and 1.65. Every one of the 36
  keys gets the brightness 1, and rounding gives 2.
\<close>

theorem breathing_round_counterexample:
  "map_option current_mode
     (Option.bind (Option.bind init (update_mode 1)) (update_brightness 3)) = Some 1 \<and>
   map_option animation_frame
     (Option.bind (Option.bind init (update_mode 1)) (update_brightness 3)) = Some 0 \<and>
   map_option current_brightness
     (Option.bind (Option.bind init (update_mode 1)) (update_brightness 3)) = Some 3 \<and>
   map_option animation_frame
     (Option.bind (Option.bind (Option.bind init (update_mode 1)) (update_brightness 3))
        (update_animation sample_hsv)) = Some 1 \<and>
   map_option (map brightness \<circ> keys)
     (Option.bind (Option.bind (Option.bind init (update_mode 1)) (update_brightness 3))
        (update_animation sample_hsv)) = Some (replicate 36 1) \<and>
   round (3 * ((sin (1 * 0.1) + 1) / 2) :: real) = 2"
proof -
  from dim_breathing_preview obtain st where
    st: "Option.bind (Option.bind init (update_mode 1)) (update_brightness 3) = Some st"
    "well_formed st" "current_mode st = 1" "current_brightness st = 3" "animation_frame st = 0"
    "length (keys st) = 36" by blast
  let ?st1 = "st\<lparr>animation_frame := animation_frame st + 1\<rparr>"
  have wf1: "well_formed ?st1" using st(2) by (simp add: well_formed_def)
  have tick: "update_animation sample_hsv st = animate_breathing ?st1"
    using st(3) by (simp add: update_animation_def Let_def)
  have e: "py_int (real_of_int (current_brightness ?st1)
             * ((sin (real_of_int (animation_frame ?st1) * 0.1) + 1) / 2)) = 1"
    using first_frame_truncated by (simp add: st(4,5))
  have "map_option (map brightness \<circ> keys) (update_animation sample_hsv st)
          = Some (replicate 36 1)"
    unfolding tick breathing_wf [OF wf1] e
    by (simp add: comp_def map_replicate_const st(6))
  moreover have "map_option animation_frame (update_animation sample_hsv st) = Some 1"
    unfolding tick breathing_wf [OF wf1] by (simp add: st(5))
  moreover have "round (3 * ((sin (1 * 0.1) + 1) / 2) :: real) = 2"
    using first_frame_rounded by simp
  ultimately show ?thesis unfolding st(1) using st(3,4,5) by simp
qed

text \<open>
  C3, as the code has it. With the timer armed, \<open>update_speed\<close> sets the interval to
  \<open>max 50 (250 - speed * 20)\<close>: 230 ms at speed 1 and 70 ms at speed 9.
  \<open>update_from_state\<close> ends with \<open>update_speed\<close>, so a preview it leaves in an animated
  mode has the timer armed at that interval. \<open>update_mode\<close> alone, like the constructor,
  arms the timer through \<open>start_animation\<close> at the fixed 100 ms, whatever the speed.
\<close>

theorem timer_interval_after_speed:
  assumes "well_formed st"
  shows "(timer_active st \<longrightarrow>
            timer_interval (update_speed s st) = max 50 (250 - s * 20) \<and>
            timer_interval (update_speed 1 st) = 230 \<and>
            timer_interval (update_speed 9 st) = 70) \<and>
         (animated_mode m \<longrightarrow>
            map_option timer_active (update_mode m st) = Some True \<and>
            map_option timer_interval (update_mode m st) = Some 100) \<and>
         (\<exists>st'. update_from_state p st = Some st' \<and>
            (animated_mode (current_mode st') \<longrightarrow>
               timer_active st' \<and>
               timer_interval st' = max 50 (250 - current_speed st' * 20)))"
proof -
  have 1: "timer_interval (update_speed x st) = max 50 (250 - x * 20)" if "timer_active st" for x
    using that by (simp add: update_speed_def update_animation_speed_def)
  have 2: "map_option timer_active (update_mode m st) = Some True \<and>
           map_option timer_interval (update_mode m st) = Some 100" if "animated_mode m"
    using update_mode_result [OF assms, of m] that by auto
  from update_from_state_result [OF assms, of p]
  have 3: "\<exists>st'. update_from_state p st = Some st' \<and>
            (animated_mode (current_mode st') \<longrightarrow>
               timer_active st' \<and>
               timer_interval st' = max 50 (250 - current_speed st' * 20))"
    by auto
  from 1 [of s] 1 [of 1] 1 [of 9] 2 3 show ?thesis by simp
qed

theorem timer_interval_after_speed_witness:
  "\<exists>st. init = Some st \<and> well_formed st \<and> timer_active st \<and>
     timer_interval (update_speed 5 st) = max 50 (250 - 5 * 20) \<and>
     timer_interval (update_speed 1 st) = 230 \<and>
     timer_interval (update_speed 9 st) = 70 \<and>
     animated_mode 1 \<and>
     map_option timer_active (update_mode 1 st) = Some True \<and>
     map_option timer_interval (update_mode 1 st) = Some 100 \<and>
     (\<exists>st'. update_from_state
               \<lparr>get_mode = Some 4, get_brightness = None, get_speed = Some 9,
                get_direction = None, get_color = None, get_zone = None\<rparr> st = Some st' \<and>
        animated_mode (current_mode st') \<and> timer_active st' \<and>
        timer_interval st' = max 50 (250 - current_speed st' * 20))"
proof -
  let ?p = "\<lparr>get_mode = Some 4, get_brightness = None, get_speed = Some 9,
                get_direction = None, get_color = None, get_zone = None\<rparr>"
  from init_shape obtain st where st: "init = Some st" "well_formed st" "timer_active st"
    by blast
  have am: "animated_mode 1" by (simp add: animated_mode_def)
  from update_from_state_result [OF st(2), of ?p]
  have mode: "\<forall>st'. update_from_state ?p st = Some st' \<longrightarrow> animated_mode (current_mode st')"
    by (auto simp add: dict_get_def animated_mode_def)
  from timer_interval_after_speed [OF st(2), of 5 1 ?p] st(3) am mode
  have "timer_interval (update_speed 5 st) = max 50 (250 - 5 * 20) \<and>
     timer_interval (update_speed 1 st) = 230 \<and>
     timer_interval (update_speed 9 st) = 70 \<and>
     map_option timer_active (update_mode 1 st) = Some True \<and>
     map_option timer_interval (update_mode 1 st) = Some 100 \<and>
     (\<exists>st'. update_from_state ?p st = Some st' \<and>
        animated_mode (current_mode st') \<and> timer_active st' \<and>
        timer_interval st' = max 50 (250 - current_speed st' * 20))"
    by blast
  with st am show ?thesis by blast
qed

text \<open>
  C3 as stated fails on the initial preview: mode 3 is animated and the timer is armed, the
  speed is 5, and the interval is 100 ms where the formula gives 150 ms.
\<close>

theorem initial_interval_counterexample:
  "map_option current_mode init = Some 3 \<and> animated_mode 3 \<and>
   map_option timer_active init = Some True \<and>
   map_option current_speed init = Some 5 \<and>
   map_option timer_interval init = Some 100 \<and>
   max 50 (250 - 5 * 20) \<noteq> (100 :: int)"
  using init_fields by (simp add: animated_mode_def)

text \<open>
  C4, as the code has it. The preview starts in mode 3 (Wave) with brightness 100 and
  speed 5, and each of its four zone colours is (50, 255, 50), the colour the source calls
  its default green.
\<close>

theorem init_defaults:
  "map_option current_mode init = Some 3 \<and>
   map_option current_brightness init = Some 100 \<and>
   map_option current_speed init = Some 5 \<and>
   map_option zone_colors init =
     Some [QColor 50 255 50, QColor 50 255 50, QColor 50 255 50, QColor 50 255 50]"
  by (simp add: init_defs)

text \<open>C4 as stated fails: the initial zone colours are not (131, 184, 26).\<close>

theorem init_brand_green_counterexample:
  "map_option zone_colors init \<noteq>
     Some [QColor 131 184 26, QColor 131 184 26, QColor 131 184 26, QColor 131 184 26]"
  by (simp add: init_defs)

text \<open>
  C5, as the code has it. A tick advances the frame counter by one in every mode, Static
  included: \<open>update_animation\<close> increments it before it looks at the mode. What keeps the
  counter still in Static mode is the timer: \<open>update_mode\<close> to mode 0 stops it, so no tick
  is scheduled.
\<close>

theorem tick_advances_frame:
  assumes "well_formed st"
  shows "map_option animation_frame (update_animation hsv st) = Some (animation_frame st + 1) \<and>
         map_option timer_active (update_mode 0 st) = Some False"
proof -
  from update_animation_frame [OF assms, of hsv]
  have 1: "map_option animation_frame (update_animation hsv st) = Some (animation_frame st + 1)"
    by auto
  from update_mode_result [OF assms, of 0]
  have 2: "map_option timer_active (update_mode 0 st) = Some False"
    by (auto simp add: animated_mode_def)
  from 1 2 show ?thesis by simp
qed

theorem tick_advances_frame_witness:
  "\<exists>st. init = Some st \<and> well_formed st \<and>
     map_option animation_frame (update_animation sample_hsv st) = Some (animation_frame st + 1) \<and>
     map_option timer_active (update_mode 0 st) = Some False"
proof -
  from init_shape obtain st where st: "init = Some st" "well_formed st" by blast
  from tick_advances_frame [OF st(2), of sample_hsv] st show ?thesis by blast
qed

text \<open>
  C5 as stated fails: after the change to Static mode the frame counter is 0, and a tick
  delivered then leaves it at 1.
\<close>

theorem static_tick_frozen_counterexample:
  "map_option current_mode (Option.bind init (update_mode 0)) = Some 0 \<and>
   map_option animation_frame (Option.bind init (update_mode 0)) = Some 0 \<and>
   map_option animation_frame
     (Option.bind (Option.bind init (update_mode 0)) (update_animation sample_hsv)) = Some 1"
proof -
  from init_then_mode [of 0] obtain st where
    "Option.bind init (update_mode 0) = Some st" "current_mode st = 0" "animation_frame st = 0"
    by blast
  then show ?thesis by (simp add: update_animation_def Let_def)
qed

text \<open>
  C6. In Static mode (mode 0) a tick changes no key: the list of keys, with every stored
  colour, brightness and shown colour, is the same after \<open>update_animation\<close> as before,
  whatever the frame counter.
\<close>

theorem static_tick_keeps_keys:
  "current_mode st = 0 \<Longrightarrow> map_option keys (update_animation hsv st) = Some (keys st)"
  by (simp add: update_animation_def Let_def)

theorem static_tick_keeps_keys_witness:
  "\<exists>st. Option.bind init (update_mode 0) = Some st \<and> current_mode st = 0 \<and>
     map_option keys (update_animation sample_hsv st) = Some (keys st)"
proof -
  from init_then_mode [of 0] obtain st where
    st: "Option.bind init (update_mode 0) = Some st" "current_mode st = 0"
    by blast
  from static_tick_keeps_keys [OF st(2), of sample_hsv] st show ?thesis by blast
qed

text \<open>
  C7. In Wave mode a tick is \<open>animate_wave\<close> at the advanced frame counter, and
  \<open>animate_wave\<close> paints every key from the wave position of the key's zone index
  \<open>zone_id k - 1\<close>: \<open>(f - z * 10) mod 100\<close> when the direction is 1 (right to left) and
  \<open>(f + z * 10) mod 100\<close> otherwise (2, left to right). The two positions agree at zone
  index 0, and the position lies in 0..99 for every direction, frame counter and zone index.
\<close>

theorem wave_position:
  "keys (animate_wave hsv st) =
     map (\<lambda>k. set_color
             (hsv (py_int (py_fmod
                (real_of_int
                   (if current_direction st = 1
                    then (animation_frame st - (zone_id k - 1) * 10) mod 100
                    else (animation_frame st + (zone_id k - 1) * 10) mod 100) * 3.6) 360)))
             (py_int (real_of_int (current_brightness st) *
                ((sin (real_of_int
                   (if current_direction st = 1
                    then (animation_frame st - (zone_id k - 1) * 10) mod 100
                    else (animation_frame st + (zone_id k - 1) * 10) mod 100) * 0.1) + 1) / 2)))
             k)
       (keys st) \<and>
   wave_pos 1 f z = (f - z * 10) mod 100 \<and> wave_pos 2 f z = (f + z * 10) mod 100 \<and>
   wave_pos 1 f 0 = wave_pos 2 f 0 \<and> 0 \<le> wave_pos d f z \<and> wave_pos d f z \<le> 99 \<and>
   (current_mode st = 3 \<longrightarrow>
      update_animation hsv st =
        Some (animate_wave hsv (st\<lparr>animation_frame := animation_frame st + 1\<rparr>)))"
proof -
  have b: "x mod 100 \<le> 99" for x :: int
    using pos_mod_bound [of 100 x] by linarith
  have "keys (animate_wave hsv st) =
     map (\<lambda>k. set_color
             (hsv (py_int (py_fmod
                (real_of_int
                   (if current_direction st = 1
                    then (animation_frame st - (zone_id k - 1) * 10) mod 100
                    else (animation_frame st + (zone_id k - 1) * 10) mod 100) * 3.6) 360)))
             (py_int (real_of_int (current_brightness st) *
                ((sin (real_of_int
                   (if current_direction st = 1
                    then (animation_frame st - (zone_id k - 1) * 10) mod 100
                    else (animation_frame st + (zone_id k - 1) * 10) mod 100) * 0.1) + 1) / 2)))
             k)
       (keys st)"
    by (simp add: animate_wave_def wave_key_def wave_pos_def Let_def)
  moreover have "wave_pos 1 f z = (f - z * 10) mod 100 \<and> wave_pos 2 f z = (f + z * 10) mod 100 \<and>
   wave_pos 1 f 0 = wave_pos 2 f 0 \<and> 0 \<le> wave_pos d f z \<and> wave_pos d f z \<le> 99"
    by (simp add: wave_pos_def b)
  moreover have "current_mode st = 3 \<longrightarrow>
      update_animation hsv st =
        Some (animate_wave hsv (st\<lparr>animation_frame := animation_frame st + 1\<rparr>))"
    by (simp add: update_animation_def Let_def)
  ultimately show ?thesis by blast
qed

theorem wave_position_witness:
  "\<exists>st. init = Some st \<and> current_mode st = 3 \<and>
     update_animation sample_hsv st =
       Some (animate_wave sample_hsv (st\<lparr>animation_frame := animation_frame st + 1\<rparr>)) \<and>
     wave_pos 1 25 3 = 95 \<and> wave_pos 2 25 3 = 55 \<and> wave_pos 1 25 0 = wave_pos 2 25 0"
proof -
  from init_shape obtain st where st: "init = Some st" "current_mode st = 3" by blast
  from wave_position [of sample_hsv st 25 3 1] st(2)
  have "update_animation sample_hsv st =
       Some (animate_wave sample_hsv (st\<lparr>animation_frame := animation_frame st + 1\<rparr>)) \<and>
     wave_pos 1 25 3 = 95 \<and> wave_pos 2 25 3 = 55 \<and> wave_pos 1 25 0 = wave_pos 2 25 0"
    by (simp add: wave_pos_def)
  with st show ?thesis by blast
qed

text \<open>
  C8. In Zoom mode a channel is \<open>min 255\<close> of the scaled base channel, so no channel that
  \<open>animate_zoom\<close> stores exceeds 255, for any frame counter and base colour; a base
  channel of 255 at zoom factor 1 is scaled by exactly 1 and stays 255.
\<close>

theorem zoom_channel_clamped:
  "zoom_channel c (zoom_factor f) \<le> 255 \<and> zoom_channel 255 1 = 255 \<and>
   list_all (\<lambda>k. red (current_color k) \<le> 255 \<and> green (current_color k) \<le> 255 \<and>
                  blue (current_color k) \<le> 255)
     (case animate_zoom st of None \<Rightarrow> [] | Some st' \<Rightarrow> keys st')"
proof -
  have keys: "list_all (\<lambda>k. red (current_color k) \<le> 255 \<and> green (current_color k) \<le> 255 \<and>
                  blue (current_color k) \<le> 255) ks"
    if "for_each (zoom_key st zf) (keys st) = Some ks" for zf ks
  proof -
    from for_each_results [OF that]
    have "\<forall>k' \<in> set ks. \<exists>k. zoom_key st zf k = Some k'"
      by (auto simp add: list_all2_conv_all_nth in_set_conv_nth) blast
    with zoom_key_clamped show ?thesis
      unfolding list_all_iff by blast
  qed
  have "zoom_channel 255 1 = 255" by (simp add: zoom_channel_def py_int_def)
  with keys show ?thesis
    by (auto simp add: zoom_channel_le animate_zoom_def split: option.splits)
qed

text \<open>
  C9. The apply command of the HTTP interface, for a payload that carries a mode as the
  spec's payload does: \<open>handle_set_mode\<close> sets the mode to the payload's, sets each of
  brightness, speed, colour, direction and zone that the payload has to the payload's value,
  and leaves each one that the payload lacks at its previous value. The preview updated
  from the state query then shows the same mode, brightness, speed and direction, with its
  frame counter unchanged. (A body without a mode is given mode 3 by the handler.)
\<close>

theorem apply_command_fields:
  assumes "get_mode data = Some m"
  shows "\<exists>st'. handle_set_mode device_ok data st = (device_ok, st') \<and>
      c_mode st' = m \<and>
      c_brightness st' = (case get_brightness data of None \<Rightarrow> c_brightness st | Some v \<Rightarrow> v) \<and>
      c_speed st' = (case get_speed data of None \<Rightarrow> c_speed st | Some v \<Rightarrow> v) \<and>
      c_color st' = (case get_color data of None \<Rightarrow> c_color st | Some v \<Rightarrow> v) \<and>
      c_direction st' = (case get_direction data of None \<Rightarrow> c_direction st | Some v \<Rightarrow> v) \<and>
      c_zone st' = (case get_zone data of None \<Rightarrow> c_zone st | Some v \<Rightarrow> v) \<and>
      (well_formed pv \<longrightarrow>
         (\<exists>pv'. update_from_state (get_current_state st') pv = Some pv' \<and>
            current_mode pv' = c_mode st' \<and> current_brightness pv' = c_brightness st' \<and>
            current_speed pv' = c_speed st' \<and> current_direction pv' = c_direction st' \<and>
            animation_frame pv' = animation_frame pv))"
proof -
  obtain st' where st': "st' = snd (handle_set_mode device_ok data st)" by simp
  have run: "handle_set_mode device_ok data st = (device_ok, st')"
    by (simp add: st' handle_set_mode_def set_rgb_mode_def Let_def)
  have fields: "c_mode st' = m"
    "c_brightness st' = (case get_brightness data of None \<Rightarrow> c_brightness st | Some v \<Rightarrow> v)"
    "c_speed st' = (case get_speed data of None \<Rightarrow> c_speed st | Some v \<Rightarrow> v)"
    "c_color st' = (case get_color data of None \<Rightarrow> c_color st | Some v \<Rightarrow> v)"
    "c_direction st' = (case get_direction data of None \<Rightarrow> c_direction st | Some v \<Rightarrow> v)"
    "c_zone st' = (case get_zone data of None \<Rightarrow> c_zone st | Some v \<Rightarrow> v)"
    using assms
    by (simp_all add: st' handle_set_mode_def set_rgb_mode_def Let_def dict_get_def
        split: option.splits)
  have sync: "\<exists>pv'. update_from_state (get_current_state st') pv = Some pv' \<and>
            current_mode pv' = c_mode st' \<and> current_brightness pv' = c_brightness st' \<and>
            current_speed pv' = c_speed st' \<and> current_direction pv' = c_direction st' \<and>
            animation_frame pv' = animation_frame pv" if "well_formed pv"
    using update_from_state_result [OF that, of "get_current_state st'"]
    by (auto simp add: get_current_state_def dict_get_def)
  from run fields sync show ?thesis by blast
qed

theorem apply_command_fields_witness:
  "\<exists>pv. init = Some pv \<and> well_formed pv \<and>
     get_mode \<lparr>get_mode = Some 1, get_brightness = Some 0, get_speed = None,
               get_direction = None, get_color = None, get_zone = None\<rparr> = Some 1 \<and>
     (\<exists>st'. handle_set_mode True
               \<lparr>get_mode = Some 1, get_brightness = Some 0, get_speed = None,
                get_direction = None, get_color = None, get_zone = None\<rparr>
               \<lparr>c_mode = 3, c_brightness = 100, c_speed = 7, c_color = (0, 100, 255),
                c_direction = 2, c_zone = 3\<rparr> = (True, st') \<and>
        c_mode st' = 1 \<and> c_brightness st' = 0 \<and> c_speed st' = 7 \<and>
        c_color st' = (0, 100, 255) \<and> c_direction st' = 2 \<and> c_zone st' = 3 \<and>
        (\<exists>pv'. update_from_state (get_current_state st') pv = Some pv' \<and>
           current_mode pv' = 1 \<and> current_brightness pv' = 0 \<and>
           current_speed pv' = 7 \<and> current_direction pv' = 2 \<and>
           animation_frame pv' = animation_frame pv))"
proof -
  let ?data = "\<lparr>get_mode = Some 1, get_brightness = Some 0, get_speed = None,
               get_direction = None, get_color = None, get_zone = None\<rparr>"
  let ?st = "\<lparr>c_mode = 3, c_brightness = 100, c_speed = 7, c_color = (0, 100, 255),
                c_direction = 2, c_zone = 3\<rparr>"
  from init_shape obtain pv where pv: "init = Some pv" "well_formed pv" by blast
  have mode: "get_mode ?data = Some 1" by simp
  from apply_command_fields [OF mode, of True ?st pv] pv(2)
  obtain st' where st': "handle_set_mode True ?data ?st = (True, st')"
    "c_mode st' = 1" "c_brightness st' = 0" "c_speed st' = 7"
    "c_color st' = (0, 100, 255)" "c_direction st' = 2" "c_zone st' = 3"
    and "\<exists>pv'. update_from_state (get_current_state st') pv = Some pv' \<and>
            current_mode pv' = c_mode st' \<and> current_brightness pv' = c_brightness st' \<and>
            current_speed pv' = c_speed st' \<and> current_direction pv' = c_direction st' \<and>
            animation_frame pv' = animation_frame pv"
    by auto
  then have "\<exists>pv'. update_from_state (get_current_state st') pv = Some pv' \<and>
           current_mode pv' = 1 \<and> current_brightness pv' = 0 \<and>
           current_speed pv' = 7 \<and> current_direction pv' = 2 \<and>
           animation_frame pv' = animation_frame pv"
    by simp
  with pv mode st' show ?thesis by blast
qed

text \<open>
  C10. In mode 2 (Neon) or 3 (Wave) \<open>update_color\<close> returns the preview as it was, zone
  colours and keys included. In mode 0, 1, 4 or 5 it stores the colour in all four zones.
\<close>

theorem update_color_modes:
  "(current_mode st \<in> {2, 3} \<longrightarrow> update_color c st = Some st) \<and>
   (current_mode st \<in> {0, 1, 4, 5} \<and> well_formed st \<longrightarrow>
      map_option zone_colors (update_color c st) = Some [c, c, c, c])"
proof -
  have "map_option zone_colors (update_color c st) = Some [c, c, c, c]"
    if "current_mode st \<in> {0, 1, 4, 5}" "well_formed st"
    using update_color_result [OF that(2) that(1), of c] by (auto simp add: eval_nat_numeral)
  then show ?thesis by (auto simp add: update_color_def)
qed

theorem update_color_modes_witness:
  "(\<exists>st. init = Some st \<and> current_mode st \<in> {2, 3} \<and>
      update_color (QColor 255 0 0) st = Some st) \<and>
   (\<exists>st. Option.bind init (update_mode 1) = Some st \<and> current_mode st \<in> {0, 1, 4, 5} \<and>
      well_formed st \<and>
      map_option zone_colors (update_color (QColor 255 0 0) st) =
        Some [QColor 255 0 0, QColor 255 0 0, QColor 255 0 0, QColor 255 0 0])"
proof -
  from init_shape obtain st where st: "init = Some st" "current_mode st = 3" by blast
  from init_then_mode [of 1] obtain st1 where
    st1: "Option.bind init (update_mode 1) = Some st1" "current_mode st1 = 1" "well_formed st1"
    by blast
  have m: "current_mode st \<in> {2, 3}" using st(2) by simp
  from update_color_modes [of st "QColor 255 0 0"] m
  have u: "update_color (QColor 255 0 0) st = Some st" by blast
  from st(1) m u have a: "\<exists>st. init = Some st \<and> current_mode st \<in> {2, 3} \<and>
      update_color (QColor 255 0 0) st = Some st" by blast
  have m1: "current_mode st1 \<in> {0, 1, 4, 5}" using st1(2) by simp
  from update_color_modes [of st1 "QColor 255 0 0"] m1 st1(3)
  have u1: "map_option zone_colors (update_color (QColor 255 0 0) st1) =
        Some [QColor 255 0 0, QColor 255 0 0, QColor 255 0 0, QColor 255 0 0]" by blast
  from st1(1) m1 st1(3) u1
  have "\<exists>st. Option.bind init (update_mode 1) = Some st \<and> current_mode st \<in> {0, 1, 4, 5} \<and>
      well_formed st \<and>
      map_option zone_colors (update_color (QColor 255 0 0) st) =
        Some [QColor 255 0 0, QColor 255 0 0, QColor 255 0 0, QColor 255 0 0]" by blast
  with a show ?thesis by blast
qed

end
